theory Spec2Isabelle
  imports Main "HOL-Library.Multiset" "HOL-Library.Sublist"
begin

section \<open>Data model\<close>

text \<open>
  \<^verbatim>\<open>type Note struct { ID int; Title string; Content string }\<close>.
  The struct is declared twice, in package \<open>db\<close> and in package \<open>main\<close>, with the same
  fields and the same JSON tags; one record stands for both.
\<close>

record Note =
  ID :: int
  Title :: string
  Content :: string

text \<open>
  Go's \<open>error\<close> values that the program meets: the sentinel \<open>sql.ErrNoRows\<close>, which
  \<open>GetNote\<close> compares by identity, and errors that are known by their message only
  (those made by \<open>fmt.Errorf\<close> and those the database driver returns).
\<close>

datatype error = ErrNoRows | ErrorString string

fun Error :: "error \<Rightarrow> string" where
  "Error ErrNoRows = ''sql: no rows in result set''"
| "Error (ErrorString s) = s"

text \<open>
  A Go slice is \<open>nil\<close> until the first \<open>append\<close>; \<open>encoding/json\<close> tells a nil slice
  from an empty one. \<open>None\<close> is the nil slice.
\<close>

type_synonym 'a slice = "'a list option"

fun append_slice :: "'a slice \<Rightarrow> 'a \<Rightarrow> 'a slice" where
  "append_slice None x = Some [x]"
| "append_slice (Some xs) x = Some (xs @ [x])"

fun elems :: "'a slice \<Rightarrow> 'a list" where
  "elems None = []"
| "elems (Some xs) = xs"

section \<open>The database behind \<open>sql.DB\<close>\<close>

text \<open>
  The table \<open>notes(id SERIAL PRIMARY KEY, title TEXT, content TEXT)\<close> that \<open>NewDB\<close>
  creates: its rows, and the sequence \<open>notes_id_seq\<close> from which \<open>SERIAL\<close> draws the
  next id. The order of the list is the order in which a \<open>SELECT\<close> without
  \<open>ORDER BY\<close> happens to return the rows.
  \<open>statements\<close> counts the statements handed to the connection by
  \<open>QueryRow\<close>, \<open>Exec\<close> and \<open>Query\<close>, so that a path that never reaches the storage
  is one that leaves the whole state as it was.
\<close>

record database =
  table :: "Note list"
  notes_id_seq :: int
  statements :: nat

definition empty_store :: database where
  "empty_store = \<lparr>table = [], notes_id_seq = 1, statements = 0\<rparr>"

text \<open>
  What the driver does with one call, which the program cannot influence:
  \<open>query_err\<close> is the error with which \<open>Exec\<close>, \<open>Query\<close> or \<open>QueryRow\<close> fails (the
  statement is then not executed), \<open>result_err\<close> the error met while reading the
  result of an executed statement (\<open>RowsAffected\<close>, \<open>Scan\<close>, \<open>rows.Err\<close>).
  Every rejection by the server (lost connection, exhausted sequence, a value the
  column type refuses) is such an error.
\<close>

record driver =
  query_err :: "string option"
  result_err :: "string option"

definition healthy :: driver where
  "healthy = \<lparr>query_err = None, result_err = None\<rparr>"

definition sent :: "database \<Rightarrow> database" where
  "sent d = d\<lparr>statements := Suc (statements d)\<rparr>"

subsection \<open>The five SQL statements\<close>

text \<open>\<^verbatim>\<open>SELECT id, title, content FROM notes WHERE id = $1\<close>\<close>

definition select_by_id :: "database \<Rightarrow> int \<Rightarrow> Note list" where
  "select_by_id d i = filter (\<lambda>n. ID n = i) (table d)"

text \<open>\<^verbatim>\<open>INSERT INTO notes (title, content) VALUES ($1, $2) RETURNING id\<close>\<close>

definition insert_returning_id :: "database \<Rightarrow> string \<Rightarrow> string \<Rightarrow> database \<times> int" where
  "insert_returning_id d title content =
     (let i = notes_id_seq d
      in (d\<lparr>table := table d @ [\<lparr>ID = i, Title = title, Content = content\<rparr>],
            notes_id_seq := i + 1\<rparr>, i))"

text \<open>\<^verbatim>\<open>UPDATE notes SET title = $1, content = $2 WHERE id = $3\<close>, with the number of
  rows affected.\<close>

definition update_by_id :: "database \<Rightarrow> string \<Rightarrow> string \<Rightarrow> int \<Rightarrow> database \<times> nat" where
  "update_by_id d title content i =
     (d\<lparr>table := map (\<lambda>n. if ID n = i then n\<lparr>Title := title, Content := content\<rparr> else n)
                     (table d)\<rparr>,
      length (filter (\<lambda>n. ID n = i) (table d)))"

text \<open>\<^verbatim>\<open>DELETE FROM notes WHERE id = $1\<close>, with the number of rows affected.\<close>

definition delete_by_id :: "database \<Rightarrow> int \<Rightarrow> database \<times> nat" where
  "delete_by_id d i =
     (d\<lparr>table := filter (\<lambda>n. ID n \<noteq> i) (table d)\<rparr>,
      length (filter (\<lambda>n. ID n = i) (table d)))"

text \<open>\<^verbatim>\<open>SELECT id, title, content FROM notes\<close>\<close>

definition select_all :: "database \<Rightarrow> Note list" where
  "select_all d = table d"

subsection \<open>\<open>ILIKE\<close>\<close>

text \<open>
  PostgreSQL's \<open>LIKE\<close>: in the pattern \<open>%\<close> stands for any run of characters, \<open>_\<close>
  for any one character, and the backslash makes the character after it stand for
  itself; everything else stands for itself. A pattern that ends with a lone
  backslash is refused with an error.
  \<open>ILIKE\<close> folds the case of text and pattern first. Characters are single bytes
  here and only the ASCII letters are folded.
\<close>

definition backslash :: char where
  "backslash = CHR 0x5C"

definition lower :: "char \<Rightarrow> char" where
  "lower c = (let n = (of_char c :: nat) in if 65 \<le> n \<and> n \<le> 90 then char_of (n + 32) else c)"

fun like_match :: "string \<Rightarrow> string \<Rightarrow> bool" where
  "like_match t [] = (t = [])"
| "like_match t (p # ps) =
     (if p = CHR ''%'' then
        (like_match t ps \<or> (case t of [] \<Rightarrow> False | c # t' \<Rightarrow> like_match t' (p # ps)))
      else if p = CHR ''_'' then
        (case t of [] \<Rightarrow> False | c # t' \<Rightarrow> like_match t' ps)
      else if p = backslash then
        (case ps of [] \<Rightarrow> False
         | q # qs \<Rightarrow> (case t of [] \<Rightarrow> False | c # t' \<Rightarrow> c = q \<and> like_match t' qs))
      else
        (case t of [] \<Rightarrow> False | c # t' \<Rightarrow> c = p \<and> like_match t' ps))"

fun trailing_escape :: "string \<Rightarrow> bool" where
  "trailing_escape [] = False"
| "trailing_escape [p] = (p = backslash)"
| "trailing_escape (p # q # ps) =
     (if p = backslash then trailing_escape ps else trailing_escape (q # ps))"

definition ilike :: "string \<Rightarrow> string \<Rightarrow> bool" where
  "ilike t pat = like_match (map lower t) (map lower pat)"

text \<open>\<^verbatim>\<open>SELECT id, title, content FROM notes WHERE title ILIKE $1 OR content ILIKE $1\<close>\<close>

definition select_ilike :: "database \<Rightarrow> string \<Rightarrow> error + Note list" where
  "select_ilike d pat =
     (if trailing_escape pat
      then Inl (ErrorString ''pq: LIKE pattern must not end with escape character'')
      else Inr (filter (\<lambda>n. ilike (Title n) pat \<or> ilike (Content n) pat) (table d)))"

section \<open>The storage accessor (package \<open>db\<close>)\<close>

text \<open>\<open>QueryRow(...).Scan(...)\<close>: the first row of the result, \<open>sql.ErrNoRows\<close> when there
  is none.\<close>

definition QueryRow_Scan :: "driver \<Rightarrow> 'a list \<Rightarrow> error + 'a" where
  "QueryRow_Scan drv result =
     (case result_err drv of
        Some m \<Rightarrow> Inl (ErrorString m)
      | None \<Rightarrow> (case result of [] \<Rightarrow> Inl ErrNoRows | x # _ \<Rightarrow> Inr x))"

definition GetNote :: "driver \<Rightarrow> database \<Rightarrow> int \<Rightarrow> database \<times> (error + Note)" where
  "GetNote drv d i =
     (let scanned = (case query_err drv of
                       Some m \<Rightarrow> Inl (ErrorString m)
                     | None \<Rightarrow> QueryRow_Scan drv (select_by_id d i))
      in case scanned of
           Inl err \<Rightarrow>
             if err = ErrNoRows then (sent d, Inl (ErrorString ''note not found''))
             else (sent d, Inl err)
         | Inr note \<Rightarrow> (sent d, Inr note))"

definition CreateNote :: "driver \<Rightarrow> database \<Rightarrow> string \<Rightarrow> string \<Rightarrow> database \<times> (error + int)" where
  "CreateNote drv d title content =
     (case query_err drv of
        Some m \<Rightarrow> (sent d, Inl (ErrorString m))
      | None \<Rightarrow>
          (let (d', i) = insert_returning_id (sent d) title content
           in case QueryRow_Scan drv [i] of
                Inl err \<Rightarrow> (d', Inl err)
              | Inr i' \<Rightarrow> (d', Inr i')))"

definition UpdateNote :: "driver \<Rightarrow> database \<Rightarrow> int \<Rightarrow> string \<Rightarrow> string \<Rightarrow> database \<times> error option" where
  "UpdateNote drv d i title content =
     (case query_err drv of
        Some m \<Rightarrow> (sent d, Some (ErrorString m))
      | None \<Rightarrow>
          (let (d', rows) = update_by_id (sent d) title content i
           in case result_err drv of
                Some m \<Rightarrow> (d', Some (ErrorString m))
              | None \<Rightarrow>
                  if rows = 0 then (d', Some (ErrorString ''note not found''))
                  else (d', None)))"

definition DeleteNote :: "driver \<Rightarrow> database \<Rightarrow> int \<Rightarrow> database \<times> error option" where
  "DeleteNote drv d i =
     (case query_err drv of
        Some m \<Rightarrow> (sent d, Some (ErrorString m))
      | None \<Rightarrow>
          (let (d', rows) = delete_by_id (sent d) i
           in case result_err drv of
                Some m \<Rightarrow> (d', Some (ErrorString m))
              | None \<Rightarrow>
                  if rows = 0 then (d', Some (ErrorString ''note not found''))
                  else (d', None)))"

text \<open>The loop \<^verbatim>\<open>for rows.Next() { ...; notes = append(notes, note) }\<close>.\<close>

fun scan_rows :: "Note list \<Rightarrow> Note slice \<Rightarrow> Note slice" where
  "scan_rows [] acc = acc"
| "scan_rows (r # rs) acc = scan_rows rs (append_slice acc r)"

definition SearchNotes :: "driver \<Rightarrow> database \<Rightarrow> string \<Rightarrow> database \<times> (error + Note slice)" where
  "SearchNotes drv d query =
     (let queried =
            (case query_err drv of
               Some m \<Rightarrow> Inl (ErrorString m)
             | None \<Rightarrow>
                 if query = [] then Inr (select_all d)
                 else select_ilike d (''%'' @ query @ ''%''))
      in case queried of
           Inl err \<Rightarrow> (sent d, Inl err)
         | Inr rows \<Rightarrow>
             (case result_err drv of
                Some m \<Rightarrow> (sent d, Inl (ErrorString m))
              | None \<Rightarrow> (sent d, Inr (scan_rows rows None))))"

section \<open>The HTTP handlers (package \<open>main\<close>)\<close>

subsection \<open>What the handlers take from the libraries\<close>

text \<open>
  \<open>strconv.Atoi\<close>: an optional sign, then one decimal digit or more, the value within
  the 64 bits of \<open>int\<close>. The handlers only test whether the error is nil, so the
  error itself is not kept: \<open>None\<close> is a non-nil error.
\<close>

definition is_digit :: "char \<Rightarrow> bool" where
  "is_digit c = (48 \<le> (of_char c :: nat) \<and> (of_char c :: nat) \<le> 57)"

fun atoi_digits :: "int \<Rightarrow> string \<Rightarrow> int option" where
  "atoi_digits n [] = Some n"
| "atoi_digits n (c # cs) =
     (if is_digit c then atoi_digits (n * 10 + (int (of_char c) - 48)) cs else None)"

definition Atoi :: "string \<Rightarrow> int option" where
  "Atoi s =
     (let (neg, ds) = (case s of
                         [] \<Rightarrow> (False, [])
                       | c # cs \<Rightarrow> if c = CHR ''-'' then (True, cs)
                                  else if c = CHR ''+'' then (False, cs)
                                  else (False, s))
      in if ds = [] then None
         else (case atoi_digits 0 ds of
                 None \<Rightarrow> None
               | Some n \<Rightarrow>
                   (let v = (if neg then - n else n)
                    in if - (2 ^ 63) \<le> v \<and> v \<le> 2 ^ 63 - 1 then Some v else None)))"

text \<open>
  A request as a handler sees it: the method and the path, the variables the router
  has taken from the path (\<open>mux.Vars\<close>), the parsed query string (\<open>r.URL.Query()\<close>),
  and the body. Indexing a Go map with a missing key and \<open>Values.Get\<close> with a
  missing key both give the empty string.
\<close>

fun index :: "(string \<times> string) list \<Rightarrow> string \<Rightarrow> string" where
  "index [] k = []"
| "index ((k', v) # kvs) k = (if k' = k then v else index kvs k)"

text \<open>
  The body is described by what \<open>json.NewDecoder(r.Body).Decode(&note)\<close> makes of it:
  either it returns an error, or it succeeds, having found a value for each of
  the three fields of \<open>Note\<close> or not. A field that is not found (or is \<open>null\<close>) keeps
  the zero value of \<^verbatim>\<open>var note Note\<close>.
\<close>

datatype body = Undecodable | Fields "int option" "string option" "string option"

fun Decode :: "body \<Rightarrow> Note option" where
  "Decode Undecodable = None"
| "Decode (Fields i t c) =
     Some \<lparr>ID = (case i of None \<Rightarrow> 0 | Some v \<Rightarrow> v),
           Title = (case t of None \<Rightarrow> [] | Some v \<Rightarrow> v),
           Content = (case c of None \<Rightarrow> [] | Some v \<Rightarrow> v)\<rparr>"

record request =
  Method :: string
  Path :: string
  Vars :: "(string \<times> string) list"
  Query :: "(string \<times> string) list"
  Body :: body

text \<open>
  A response: the status, the \<open>Content-Type\<close> header, and what was written. The
  JSON documents that \<open>json.NewEncoder(w).Encode\<close> writes are kept as values, not as
  bytes.
\<close>

datatype json = JNull | JNumber int | JString string | JArray "json list"
  | JObject "(string \<times> json) list"

datatype payload = Empty | Text string | Json json

record response =
  Status :: nat
  ContentType :: "string option"
  Payload :: payload

definition StatusOK :: nat where "StatusOK = 200"

definition StatusCreated :: nat where "StatusCreated = 201"

definition StatusBadRequest :: nat where "StatusBadRequest = 400"

definition StatusNotFound :: nat where "StatusNotFound = 404"

definition StatusInternalServerError :: nat where "StatusInternalServerError = 500"

text \<open>\<open>http.Error(w, msg, code)\<close> writes the message and a newline as plain text.\<close>

definition http_Error :: "string \<Rightarrow> nat \<Rightarrow> response" where
  "http_Error msg code =
     \<lparr>Status = code, ContentType = Some ''text/plain; charset=utf-8'',
      Payload = Text (msg @ [CHR 0x0A])\<rparr>"

text \<open>The encoding of a \<open>Note\<close> under its JSON tags, and of a \<open>[]Note\<close>: a nil slice
  is encoded as \<open>null\<close>.\<close>

definition encode_Note :: "Note \<Rightarrow> json" where
  "encode_Note n =
     JObject [(''id'', JNumber (ID n)), (''title'', JString (Title n)),
              (''content'', JString (Content n))]"

fun encode_Notes :: "Note slice \<Rightarrow> json" where
  "encode_Notes None = JNull"
| "encode_Notes (Some ns) = JArray (map encode_Note ns)"

subsection \<open>The handlers\<close>

text \<open>Each handler takes the state of the database and returns the new one with
  its response. The calls of \<open>log.Printf\<close> are left out.\<close>

definition makeGetNoteHandler :: "driver \<Rightarrow> database \<Rightarrow> request \<Rightarrow> database \<times> response" where
  "makeGetNoteHandler drv d r =
     (case Atoi (index (Vars r) ''id'') of
        None \<Rightarrow> (d, http_Error ''Invalid ID'' StatusBadRequest)
      | Some i \<Rightarrow>
          if i \<le> 0 then (d, http_Error ''Invalid ID'' StatusBadRequest)
          else (case GetNote drv d i of
                  (d', Inl err) \<Rightarrow>
                    if Error err = ''note not found''
                    then (d', http_Error ''Note not found'' StatusNotFound)
                    else (d', http_Error ''Internal server error'' StatusInternalServerError)
                | (d', Inr note) \<Rightarrow>
                    (d', \<lparr>Status = StatusOK, ContentType = Some ''application/json'',
                          Payload = Json (encode_Note note)\<rparr>)))"

definition makeCreateNoteHandler :: "driver \<Rightarrow> database \<Rightarrow> request \<Rightarrow> database \<times> response" where
  "makeCreateNoteHandler drv d r =
     (case Decode (Body r) of
        None \<Rightarrow> (d, http_Error ''Invalid request'' StatusBadRequest)
      | Some note \<Rightarrow>
          if Title note = [] \<or> Content note = []
          then (d, http_Error ''Title and content required'' StatusBadRequest)
          else (case CreateNote drv d (Title note) (Content note) of
                  (d', Inl err) \<Rightarrow>
                    (d', http_Error ''Internal server error'' StatusInternalServerError)
                | (d', Inr i) \<Rightarrow>
                    (d', \<lparr>Status = StatusCreated, ContentType = Some ''application/json'',
                          Payload = Json (encode_Note
                            \<lparr>ID = i, Title = Title note, Content = Content note\<rparr>)\<rparr>)))"

definition makeUpdateNoteHandler :: "driver \<Rightarrow> database \<Rightarrow> request \<Rightarrow> database \<times> response" where
  "makeUpdateNoteHandler drv d r =
     (case Atoi (index (Vars r) ''id'') of
        None \<Rightarrow> (d, http_Error ''Invalid ID'' StatusBadRequest)
      | Some i \<Rightarrow>
          if i \<le> 0 then (d, http_Error ''Invalid ID'' StatusBadRequest)
          else (case Decode (Body r) of
                  None \<Rightarrow> (d, http_Error ''Invalid request'' StatusBadRequest)
                | Some note \<Rightarrow>
                    if Title note = [] \<or> Content note = []
                    then (d, http_Error ''Title and content required'' StatusBadRequest)
                    else (case UpdateNote drv d i (Title note) (Content note) of
                            (d', Some err) \<Rightarrow>
                              if Error err = ''note not found''
                              then (d', http_Error ''Note not found'' StatusNotFound)
                              else (d', http_Error ''Internal server error''
                                          StatusInternalServerError)
                          | (d', None) \<Rightarrow>
                              (d', \<lparr>Status = StatusOK, ContentType = None,
                                    Payload = Empty\<rparr>))))"

definition makeDeleteNoteHandler :: "driver \<Rightarrow> database \<Rightarrow> request \<Rightarrow> database \<times> response" where
  "makeDeleteNoteHandler drv d r =
     (case Atoi (index (Vars r) ''id'') of
        None \<Rightarrow> (d, http_Error ''Invalid ID'' StatusBadRequest)
      | Some i \<Rightarrow>
          if i \<le> 0 then (d, http_Error ''Invalid ID'' StatusBadRequest)
          else (case DeleteNote drv d i of
                  (d', Some err) \<Rightarrow>
                    if Error err = ''note not found''
                    then (d', http_Error ''Note not found'' StatusNotFound)
                    else (d', http_Error ''Internal server error'' StatusInternalServerError)
                | (d', None) \<Rightarrow>
                    (d', \<lparr>Status = StatusOK, ContentType = None, Payload = Empty\<rparr>)))"

text \<open>The loop of the search handler that copies each \<open>db.Note\<close> into a \<open>Note\<close> of
  package \<open>main\<close>, appending to a slice that starts nil.\<close>

fun convert_notes :: "Note list \<Rightarrow> Note slice \<Rightarrow> Note slice" where
  "convert_notes [] acc = acc"
| "convert_notes (dbNote # rest) acc =
     convert_notes rest
       (append_slice acc \<lparr>ID = ID dbNote, Title = Title dbNote, Content = Content dbNote\<rparr>)"

definition missing_q :: string where
  "missing_q = ''Missing query parameter '' @ [CHR 0x27] @ ''q'' @ [CHR 0x27]"

definition makeSearchNotesHandler :: "driver \<Rightarrow> database \<Rightarrow> request \<Rightarrow> database \<times> response" where
  "makeSearchNotesHandler drv d r =
     (let q = index (Query r) ''q''
      in if q = [] then (d, http_Error missing_q StatusBadRequest)
         else (case SearchNotes drv d q of
                 (d', Inl err) \<Rightarrow>
                   (d', http_Error ''Internal server error'' StatusInternalServerError)
               | (d', Inr found) \<Rightarrow>
                   (d', \<lparr>Status = StatusOK, ContentType = Some ''application/json'',
                         Payload = Json (JObject
                           [(''search_result'',
                             encode_Notes (convert_notes (elems found) None))])\<rparr>)))"

subsection \<open>The router\<close>

text \<open>
  \<open>main\<close> registers five routes on a \<open>mux.Router\<close>. The router tries the routes in the
  order of their registration and the first one whose path template and method
  both match serves the request. A template matches a path segment by segment; a
  segment \<^verbatim>\<open>{name}\<close> matches any non-empty segment and binds it to the variable.
\<close>

datatype handler = GetNoteHandler | CreateNoteHandler | UpdateNoteHandler
  | DeleteNoteHandler | SearchNotesHandler

definition routes :: "(string \<times> string \<times> handler) list" where
  "routes =
     [(''/api/v1/notes/{id}'', ''GET'', GetNoteHandler),
      (''/api/v1/notes'', ''POST'', CreateNoteHandler),
      (''/api/v1/notes/{id}'', ''PUT'', UpdateNoteHandler),
      (''/api/v1/notes/{id}'', ''DELETE'', DeleteNoteHandler),
      (''/api/v1/notes/search'', ''GET'', SearchNotesHandler)]"

fun segments :: "string \<Rightarrow> string list" where
  "segments [] = [[]]"
| "segments (c # cs) =
     (if c = CHR ''/'' then [] # segments cs
      else (case segments cs of [] \<Rightarrow> [[c]] | s # ss \<Rightarrow> (c # s) # ss))"

definition is_variable :: "string \<Rightarrow> bool" where
  "is_variable t = (2 \<le> length t \<and> hd t = CHR ''{'' \<and> last t = CHR ''}'')"

fun match_segments :: "string list \<Rightarrow> string list \<Rightarrow> (string \<times> string) list option" where
  "match_segments [] [] = Some []"
| "match_segments (t # ts) (p # ps) =
     (if is_variable t then
        (if p = [] then None
         else (case match_segments ts ps of
                 None \<Rightarrow> None
               | Some vars \<Rightarrow> Some ((butlast (tl t), p) # vars)))
      else if t = p then match_segments ts ps
      else None)"
| "match_segments _ _ = None"

fun first_match :: "(string \<times> string \<times> handler) list \<Rightarrow> request
    \<Rightarrow> (handler \<times> (string \<times> string) list) option" where
  "first_match [] r = None"
| "first_match ((template, method, h) # rest) r =
     (case match_segments (segments template) (segments (Path r)) of
        None \<Rightarrow> first_match rest r
      | Some vars \<Rightarrow> if Method r = method then Some (h, vars) else first_match rest r)"

fun serve :: "handler \<Rightarrow> driver \<Rightarrow> database \<Rightarrow> request \<Rightarrow> database \<times> response" where
  "serve GetNoteHandler = makeGetNoteHandler"
| "serve CreateNoteHandler = makeCreateNoteHandler"
| "serve UpdateNoteHandler = makeUpdateNoteHandler"
| "serve DeleteNoteHandler = makeDeleteNoteHandler"
| "serve SearchNotesHandler = makeSearchNotesHandler"

text \<open>
  Before it tries the routes, the router redirects a request whose path is not in
  canonical form. A path is canonical when it starts with a slash, has no empty
  segment except possibly the last one, and no segment \<open>.\<close> or \<open>..\<close>.
\<close>

definition is_clean :: "string \<Rightarrow> bool" where
  "is_clean p =
     (case segments p of
        [] \<Rightarrow> False
      | s # ss \<Rightarrow> s = [] \<and> ss \<noteq> [] \<and> list_all (\<lambda>x. x \<noteq> ''.'' \<and> x \<noteq> ''..'') ss \<and>
                 list_all (\<lambda>x. x \<noteq> []) (butlast ss))"

text \<open>A request that is redirected, or that no route matches, is answered by the
  router itself and not by a handler of this program: \<open>None\<close>.\<close>

definition ServeHTTP :: "driver \<Rightarrow> database \<Rightarrow> request \<Rightarrow> (database \<times> response) option" where
  "ServeHTTP drv d r =
     (if \<not> is_clean (Path r) then None
      else (case first_match routes r of
              None \<Rightarrow> None
            | Some (h, vars) \<Rightarrow> Some (serve h drv d (r\<lparr>Vars := vars\<rparr>))))"

text \<open>A run of the server: requests served one after the other, each with what the
  driver does during it.\<close>

fun serve_all :: "database \<Rightarrow> (driver \<times> request) list \<Rightarrow> database" where
  "serve_all d [] = d"
| "serve_all d ((drv, r) # rest) =
     (case ServeHTTP drv d r of
        None \<Rightarrow> serve_all d rest
      | Some (d', resp) \<Rightarrow> serve_all d' rest)"

section \<open>Properties of states\<close>

text \<open>Ids come from the sequence only, so in every state the program can reach
  they are distinct, positive and below the next value of the sequence.\<close>

definition wf :: "database \<Rightarrow> bool" where
  "wf d = (0 < notes_id_seq d \<and> distinct (map ID (table d)) \<and>
           list_all (\<lambda>n. 0 < ID n \<and> ID n < notes_id_seq d) (table d))"

definition nonempty_notes :: "database \<Rightarrow> bool" where
  "nonempty_notes d = list_all (\<lambda>n. Title n \<noteq> [] \<and> Content n \<noteq> []) (table d)"

text \<open>A property of states that every statement the handlers can issue keeps: the
  handlers pass on only titles and contents that are not empty.\<close>

definition stable :: "(database \<Rightarrow> bool) \<Rightarrow> bool" where
  "stable P =
     (\<forall>d. P d \<longrightarrow>
        P (sent d) \<and>
        (\<forall>i. P (fst (delete_by_id (sent d) i))) \<and>
        (\<forall>title content. title \<noteq> [] \<and> content \<noteq> [] \<longrightarrow>
           P (fst (insert_returning_id (sent d) title content)) \<and>
           (\<forall>i. P (fst (update_by_id (sent d) title content i)))))"

text \<open>What the specification means by a text that contains a query, case-insensitively.\<close>

definition contains_ci :: "string \<Rightarrow> string \<Rightarrow> bool" where
  "contains_ci s q = sublist (map lower q) (map lower s)"

definition plain :: "string \<Rightarrow> bool" where
  "plain q = list_all (\<lambda>c. c \<noteq> CHR ''%'' \<and> c \<noteq> CHR ''_'' \<and> c \<noteq> backslash) q"

section \<open>Example states and requests\<close>

definition two_notes :: database where
  "two_notes =
     \<lparr>table = [\<lparr>ID = 1, Title = ''abc'', Content = ''def''\<rparr>,
               \<lparr>ID = 2, Title = ''50%'', Content = ''a_b''\<rparr>],
      notes_id_seq = 3, statements = 0\<rparr>"

definition failing :: "string \<Rightarrow> driver" where
  "failing m = \<lparr>query_err = Some m, result_err = None\<rparr>"

definition req :: "string \<Rightarrow> string \<Rightarrow> (string \<times> string) list \<Rightarrow> body \<Rightarrow> request" where
  "req m p q b = \<lparr>Method = m, Path = p, Vars = [], Query = q, Body = b\<rparr>"

section \<open>Creating, fetching and listing notes\<close>

lemma table_sent [simp]: "table (sent d) = table d"
  by (simp add: sent_def)

lemma seq_sent [simp]: "notes_id_seq (sent d) = notes_id_seq d"
  by (simp add: sent_def)

lemma elems_scan_rows: "elems (scan_rows rs acc) = elems acc @ rs"
proof (induction rs arbitrary: acc)
  case Nil
  show ?case by simp
next
  case (Cons r rs)
  show ?case by (cases acc) (simp_all add: Cons.IH)
qed

lemma select_fresh:
  assumes "wf d"
  shows "select_by_id (fst (insert_returning_id (sent d) title content)) (notes_id_seq d)
         = [\<lparr>ID = notes_id_seq d, Title = title, Content = content\<rparr>]"
proof -
  have "filter (\<lambda>n. ID n = notes_id_seq d) (table d) = []"
    using assms by (auto simp: wf_def list_all_iff filter_empty_conv)
  then show ?thesis
    by (simp add: select_by_id_def insert_returning_id_def Let_def)
qed

lemma CreateNote_Inr:
  assumes "CreateNote drv d title content = (d', Inr i)"
  shows "d' = fst (insert_returning_id (sent d) title content) \<and> i = notes_id_seq d"
  using assms
  by (auto simp: CreateNote_def QueryRow_Scan_def insert_returning_id_def Let_def
           split: option.splits)

lemma CreateNote_healthy:
  "CreateNote healthy d title content =
     (fst (insert_returning_id (sent d) title content), Inr (notes_id_seq d))"
  by (simp add: CreateNote_def healthy_def QueryRow_Scan_def insert_returning_id_def Let_def)

lemma GetNote_healthy:
  "GetNote healthy d i =
     (sent d, case select_by_id d i of [] \<Rightarrow> Inl (ErrorString ''note not found'') | n # _ \<Rightarrow> Inr n)"
  by (simp add: GetNote_def healthy_def QueryRow_Scan_def Let_def split: list.splits)

text \<open>
  C1. In a state whose ids come from the sequence, \<open>CreateNote\<close> on a healthy
  connection returns an id, and whenever \<open>CreateNote\<close> has returned an id, \<open>GetNote\<close>
  with that id (on a healthy connection) returns the note with that id and
  exactly the title and content given.
\<close>

theorem create_then_get:
  assumes "wf d"
  shows "(\<exists>d' i. CreateNote healthy d title content = (d', Inr i)) \<and>
         (\<forall>drv d' i. CreateNote drv d title content = (d', Inr i) \<longrightarrow>
            snd (GetNote healthy d' i) = Inr \<lparr>ID = i, Title = title, Content = content\<rparr>)"
proof (intro conjI allI impI)
  show "\<exists>d' i. CreateNote healthy d title content = (d', Inr i)"
    by (simp add: CreateNote_healthy)
next
  fix drv d' i
  assume c: "CreateNote drv d title content = (d', Inr i)"
  from CreateNote_Inr [OF c] select_fresh [OF assms, of title content]
  show "snd (GetNote healthy d' i) = Inr \<lparr>ID = i, Title = title, Content = content\<rparr>"
    by (simp add: GetNote_healthy)
qed

theorem create_then_get_witness:
  "wf empty_store \<and>
   CreateNote healthy empty_store ''A'' ''B'' =
     (\<lparr>table = [\<lparr>ID = 1, Title = ''A'', Content = ''B''\<rparr>], notes_id_seq = 2,
       statements = 1\<rparr>, Inr 1) \<and>
   snd (GetNote healthy
          \<lparr>table = [\<lparr>ID = 1, Title = ''A'', Content = ''B''\<rparr>], notes_id_seq = 2,
            statements = 1\<rparr> 1)
     = Inr \<lparr>ID = 1, Title = ''A'', Content = ''B''\<rparr>"
proof -
  have w: "wf empty_store"
    by (simp add: wf_def empty_store_def)
  have c: "CreateNote healthy empty_store ''A'' ''B'' =
     (\<lparr>table = [\<lparr>ID = 1, Title = ''A'', Content = ''B''\<rparr>], notes_id_seq = 2,
       statements = 1\<rparr>, Inr 1)"
    by (simp add: CreateNote_healthy insert_returning_id_def sent_def empty_store_def)
  from create_then_get [OF w, of "''A''" "''B''"] c w show ?thesis
    by blast
qed

text \<open>
  C3. On a healthy connection \<open>SearchNotes\<close> with the empty query returns, without
  error, a slice that holds exactly the stored notes (compared as multisets, the
  order being the database's).
\<close>

theorem search_empty_query:
  "\<exists>found. SearchNotes healthy d [] = (sent d, Inr found) \<and>
           mset (elems found) = mset (table d)"
  by (simp add: SearchNotes_def healthy_def select_all_def elems_scan_rows)







section \<open>Routing\<close>




lemma is_variable_simps:
  "\<not> is_variable []" "\<not> is_variable ''api''" "\<not> is_variable ''v1''"
  "\<not> is_variable ''notes''" "\<not> is_variable ''search''" "is_variable ''{id}''"
  by (simp_all add: is_variable_def)


lemma route_notes:
  assumes "Path r = ''/api/v1/notes''"
  shows "first_match routes r =
     (if Method r = ''POST'' then Some (CreateNoteHandler, []) else None)"
  using assms by (simp add: routes_def is_variable_simps)



lemma ServeHTTP_notes:
  assumes "Path r = ''/api/v1/notes''"
  shows "ServeHTTP drv d r =
     (if Method r = ''POST'' then Some (makeCreateNoteHandler drv d (r\<lparr>Vars := []\<rparr>))
      else None)"
proof -
  have "is_clean (Path r)"
    unfolding assms by (simp add: is_clean_def)
  then show ?thesis
    by (simp add: ServeHTTP_def route_notes [OF assms])
qed

section \<open>Validation of the id\<close>







section \<open>Notes that are not there\<close>



section \<open>Validation of the body\<close>

text \<open>
  C7. POST \<^verbatim>\<open>/api/v1/notes\<close>: a body that does not decode, and a body whose title or
  content is missing or empty, are answered with 400 and the state of the
  database, with its count of statements, is as before, whatever the driver
  would have done. A body with a non-empty title and content is answered, on a
  healthy connection, with 201 and the note under the id drawn from the
  sequence, and that note is the one row added.
\<close>

theorem create_validation:
  assumes "Method r = ''POST''" "Path r = ''/api/v1/notes''"
  shows "(Body r = Undecodable \<longrightarrow>
            ServeHTTP drv d r = Some (d, http_Error ''Invalid request'' StatusBadRequest)) \<and>
         (Body r = Fields i t c \<and> (t = None \<or> t = Some [] \<or> c = None \<or> c = Some []) \<longrightarrow>
            ServeHTTP drv d r =
              Some (d, http_Error ''Title and content required'' StatusBadRequest)) \<and>
         (Body r = Fields i (Some title) (Some content) \<and> title \<noteq> [] \<and> content \<noteq> [] \<longrightarrow>
            ServeHTTP healthy d r =
              Some (d\<lparr>table := table d @
                         [\<lparr>ID = notes_id_seq d, Title = title, Content = content\<rparr>],
                      notes_id_seq := notes_id_seq d + 1,
                      statements := Suc (statements d)\<rparr>,
                    \<lparr>Status = StatusCreated, ContentType = Some ''application/json'',
                     Payload = Json (encode_Note
                       \<lparr>ID = notes_id_seq d, Title = title, Content = content\<rparr>)\<rparr>))"
proof (intro conjI impI)
  assume "Body r = Undecodable"
  with assms show "ServeHTTP drv d r = Some (d, http_Error ''Invalid request'' StatusBadRequest)"
    by (simp add: ServeHTTP_notes makeCreateNoteHandler_def)
next
  assume "Body r = Fields i t c \<and> (t = None \<or> t = Some [] \<or> c = None \<or> c = Some [])"
  with assms show "ServeHTTP drv d r =
      Some (d, http_Error ''Title and content required'' StatusBadRequest)"
    by (auto simp: ServeHTTP_notes makeCreateNoteHandler_def)
next
  assume "Body r = Fields i (Some title) (Some content) \<and> title \<noteq> [] \<and> content \<noteq> []"
  with assms show "ServeHTTP healthy d r =
      Some (d\<lparr>table := table d @ [\<lparr>ID = notes_id_seq d, Title = title, Content = content\<rparr>],
              notes_id_seq := notes_id_seq d + 1, statements := Suc (statements d)\<rparr>,
            \<lparr>Status = StatusCreated, ContentType = Some ''application/json'',
             Payload = Json (encode_Note
               \<lparr>ID = notes_id_seq d, Title = title, Content = content\<rparr>)\<rparr>)"
    by (simp add: ServeHTTP_notes makeCreateNoteHandler_def CreateNote_healthy
                  insert_returning_id_def sent_def Let_def)
qed

theorem create_validation_witness:
  "ServeHTTP healthy two_notes (req ''POST'' ''/api/v1/notes'' [] Undecodable) =
     Some (two_notes, http_Error ''Invalid request'' StatusBadRequest) \<and>
   ServeHTTP healthy two_notes (req ''POST'' ''/api/v1/notes'' [] (Fields None None (Some ''c''))) =
     Some (two_notes, http_Error ''Title and content required'' StatusBadRequest) \<and>
   ServeHTTP healthy two_notes
       (req ''POST'' ''/api/v1/notes'' [] (Fields None (Some ''t'') (Some ''c''))) =
     Some (\<lparr>table = [\<lparr>ID = 1, Title = ''abc'', Content = ''def''\<rparr>,
                      \<lparr>ID = 2, Title = ''50%'', Content = ''a_b''\<rparr>,
                      \<lparr>ID = 3, Title = ''t'', Content = ''c''\<rparr>],
             notes_id_seq = 4, statements = 1\<rparr>,
           \<lparr>Status = StatusCreated, ContentType = Some ''application/json'',
            Payload = Json (JObject [(''id'', JNumber 3), (''title'', JString ''t''),
                                     (''content'', JString ''c'')])\<rparr>)"
  using create_validation [of "req ''POST'' ''/api/v1/notes'' [] Undecodable" healthy two_notes]
    create_validation [of "req ''POST'' ''/api/v1/notes'' [] (Fields None None (Some ''c''))"
      healthy two_notes None None "Some ''c''"]
    create_validation [of "req ''POST'' ''/api/v1/notes'' [] (Fields None (Some ''t'') (Some ''c''))"
      _ two_notes None _ _ "''t''" "''c''"]
  by (simp add: req_def two_notes_def encode_Note_def)

section \<open>Errors of the storage\<close>

text \<open>
  C10. In the handlers for GET, PUT and DELETE, once the id (and for PUT the body)
  has passed the validation, an error of the accessor is answered with 404 when
  its message is \<open>note not found\<close> and otherwise with 500 and the message
  \<open>Internal server error\<close>. So a failure of the driver whose message is that very
  string is answered with 404, also when the note exists.
\<close>

theorem error_classification:
  assumes "Atoi (index (Vars r) ''id'') = Some i" "0 < i"
  shows "(GetNote drv d i = (d', Inl e) \<longrightarrow>
            makeGetNoteHandler drv d r =
              (d', if Error e = ''note not found''
                   then http_Error ''Note not found'' StatusNotFound
                   else http_Error ''Internal server error'' StatusInternalServerError)) \<and>
         (Decode (Body r) = Some note \<and> Title note \<noteq> [] \<and> Content note \<noteq> [] \<and>
          UpdateNote drv d i (Title note) (Content note) = (d', Some e) \<longrightarrow>
            makeUpdateNoteHandler drv d r =
              (d', if Error e = ''note not found''
                   then http_Error ''Note not found'' StatusNotFound
                   else http_Error ''Internal server error'' StatusInternalServerError)) \<and>
         (DeleteNote drv d i = (d', Some e) \<longrightarrow>
            makeDeleteNoteHandler drv d r =
              (d', if Error e = ''note not found''
                   then http_Error ''Note not found'' StatusNotFound
                   else http_Error ''Internal server error'' StatusInternalServerError)) \<and>
         (query_err drv = Some ''note not found'' \<longrightarrow>
            makeGetNoteHandler drv d r =
              (sent d, http_Error ''Note not found'' StatusNotFound) \<and>
            makeDeleteNoteHandler drv d r =
              (sent d, http_Error ''Note not found'' StatusNotFound))"
  using assms
  by (simp add: makeGetNoteHandler_def makeUpdateNoteHandler_def makeDeleteNoteHandler_def
                GetNote_def DeleteNote_def)

theorem error_classification_witness:
  "makeGetNoteHandler (failing ''note not found'') two_notes
       ((req ''GET'' ''/api/v1/notes/2'' [] Undecodable)\<lparr>Vars := [(''id'', ''2'')]\<rparr>) =
     (sent two_notes, http_Error ''Note not found'' StatusNotFound) \<and>
   makeGetNoteHandler (failing ''connection refused'') two_notes
       ((req ''GET'' ''/api/v1/notes/2'' [] Undecodable)\<lparr>Vars := [(''id'', ''2'')]\<rparr>) =
     (sent two_notes, http_Error ''Internal server error'' StatusInternalServerError) \<and>
   makeDeleteNoteHandler (failing ''connection refused'') two_notes
       ((req ''DELETE'' ''/api/v1/notes/2'' [] Undecodable)\<lparr>Vars := [(''id'', ''2'')]\<rparr>) =
     (sent two_notes, http_Error ''Internal server error'' StatusInternalServerError) \<and>
   makeUpdateNoteHandler (failing ''connection refused'') two_notes
       ((req ''PUT'' ''/api/v1/notes/2'' [] (Fields None (Some ''t'') (Some ''c'')))
          \<lparr>Vars := [(''id'', ''2'')]\<rparr>) =
     (sent two_notes, http_Error ''Internal server error'' StatusInternalServerError)"
proof -
  have a2: "Atoi ''2'' = Some 2"
    by (simp add: Atoi_def is_digit_def)
  have g: "GetNote (failing m) two_notes 2 = (sent two_notes, Inl (ErrorString m))" for m
    by (simp add: GetNote_def failing_def)
  have u: "UpdateNote (failing m) two_notes 2 ''t'' ''c'' = (sent two_notes, Some (ErrorString m))" for m
    by (simp add: UpdateNote_def failing_def)
  have dl: "DeleteNote (failing m) two_notes 2 = (sent two_notes, Some (ErrorString m))" for m
    by (simp add: DeleteNote_def failing_def)
  show ?thesis
    using error_classification [of "(req ''GET'' ''/api/v1/notes/2'' [] Undecodable)\<lparr>Vars := [(''id'', ''2'')]\<rparr>"
        2 "failing ''note not found''" two_notes "sent two_notes" "ErrorString ''note not found''"]
      error_classification [of "(req ''GET'' ''/api/v1/notes/2'' [] Undecodable)\<lparr>Vars := [(''id'', ''2'')]\<rparr>"
        2 "failing ''connection refused''" two_notes "sent two_notes" "ErrorString ''connection refused''"]
      error_classification [of "(req ''DELETE'' ''/api/v1/notes/2'' [] Undecodable)\<lparr>Vars := [(''id'', ''2'')]\<rparr>"
        2 "failing ''connection refused''" two_notes "sent two_notes" "ErrorString ''connection refused''"]
      error_classification [of "(req ''PUT'' ''/api/v1/notes/2'' [] (Fields None (Some ''t'') (Some ''c'')))\<lparr>Vars := [(''id'', ''2'')]\<rparr>"
        2 "failing ''connection refused''" two_notes "sent two_notes" "ErrorString ''connection refused''"
        "\<lparr>ID = 0, Title = ''t'', Content = ''c''\<rparr>"]
    by (simp add: req_def a2 g u dl)
qed

section \<open>Searching\<close>

lemma not_trailing_escape:
  "c \<noteq> backslash \<Longrightarrow> \<not> trailing_escape (p @ [c])"
  by (induction p rule: trailing_escape.induct) auto

lemma pattern_well_formed: "\<not> trailing_escape (''%'' @ q @ ''%'')"
proof -
  have "CHR ''%'' \<noteq> backslash"
    by (simp add: backslash_def)
  then have "\<not> trailing_escape ((''%'' @ q) @ [CHR ''%''])"
    by (rule not_trailing_escape)
  then show ?thesis by simp
qed

lemma like_percent: "like_match t ''%''"
  by (induction t) auto

lemma like_prefix: "plain p \<Longrightarrow> like_match t (p @ ''%'') = prefix p t"
proof (induction p arbitrary: t)
  case Nil
  show ?case using like_percent by simp
next
  case (Cons c p)
  then have c: "c \<noteq> CHR ''%''" "c \<noteq> CHR ''_''" "c \<noteq> backslash" and p: "plain p"
    by (simp_all add: plain_def)
  show ?case
  proof (cases t)
    case Nil
    then show ?thesis using c by simp
  next
    case (Cons a t')
    then show ?thesis using c Cons.IH [OF p, of t'] by auto
  qed
qed

lemma like_any_run:
  "like_match t (CHR ''%'' # ps) = (\<exists>s. suffix s t \<and> like_match s ps)"
proof (induction t)
  case Nil
  show ?case by simp
next
  case (Cons a t)
  have "like_match (a # t) (CHR ''%'' # ps) =
        (like_match (a # t) ps \<or> like_match t (CHR ''%'' # ps))"
    by simp
  also have "\<dots> = (like_match (a # t) ps \<or> (\<exists>s. suffix s t \<and> like_match s ps))"
    by (simp only: Cons.IH)
  also have "\<dots> = (\<exists>s. suffix s (a # t) \<and> like_match s ps)"
    by (auto simp: suffix_Cons)
  finally show ?case .
qed

lemma like_sublist:
  assumes "plain q"
  shows "like_match t (''%'' @ q @ ''%'') = sublist q t"
proof -
  have "like_match t (''%'' @ q @ ''%'') = (\<exists>s. suffix s t \<and> prefix q s)"
    using like_any_run [of t "q @ ''%''"] like_prefix [OF assms] by simp
  then show ?thesis
    by (simp add: sublist_altdef')
qed

lemma lower_percent: "lower (CHR ''%'') = CHR ''%''"
  by (simp add: lower_def)

lemma of_char_lower:
  "(of_char (lower c) :: nat) =
     (if 65 \<le> (of_char c :: nat) \<and> (of_char c :: nat) \<le> 90 then of_char c + 32 else of_char c)"
  by (simp add: lower_def Let_def)

lemma lower_plain:
  assumes "c \<noteq> CHR ''%''" "c \<noteq> CHR ''_''" "c \<noteq> backslash"
  shows "lower c \<noteq> CHR ''%'' \<and> lower c \<noteq> CHR ''_'' \<and> lower c \<noteq> backslash"
proof (cases "65 \<le> (of_char c :: nat) \<and> (of_char c :: nat) \<le> 90")
  case True
  then have letter: "97 \<le> (of_char (lower c) :: nat)"
    by (simp add: of_char_lower)
  have "lower c \<noteq> x" if "(of_char x :: nat) < 97" for x
    using that letter by auto
  then show ?thesis
    by (simp add: backslash_def)
next
  case False
  then have "lower c = c"
    by (auto simp: lower_def Let_def)
  with assms show ?thesis by simp
qed

lemma plain_lower: "plain q \<Longrightarrow> plain (map lower q)"
  by (induction q) (auto simp: plain_def lower_plain)

lemma ilike_contains:
  assumes "plain q"
  shows "ilike t (''%'' @ q @ ''%'') = contains_ci t q"
  using like_sublist [OF plain_lower [OF assms], of "map lower t"]
  by (simp add: ilike_def contains_ci_def lower_percent)

lemma scan_rows_Some: "scan_rows rs (Some xs) = Some (xs @ rs)"
  by (induction rs arbitrary: xs) simp_all

lemma scan_rows_None: "scan_rows rs None = (if rs = [] then None else Some rs)"
  by (cases rs) (simp_all add: scan_rows_Some)

lemma convert_notes_Some: "convert_notes ns (Some xs) = Some (xs @ ns)"
  by (induction ns arbitrary: xs) simp_all

lemma convert_notes_None: "convert_notes ns None = (if ns = [] then None else Some ns)"
  by (cases ns) (simp_all add: convert_notes_Some)

lemma SearchNotes_healthy:
  "q \<noteq> [] \<Longrightarrow>
   SearchNotes healthy d q =
     (sent d, Inr (scan_rows
        (filter (\<lambda>n. ilike (Title n) (''%'' @ q @ ''%'') \<or> ilike (Content n) (''%'' @ q @ ''%''))
           (table d)) None))"
  using pattern_well_formed [of q]
  by (simp add: SearchNotes_def healthy_def select_ilike_def)

lemma search_plain_query:
  assumes "q \<noteq> []" "plain q"
  shows "\<exists>found. SearchNotes healthy d q = (sent d, Inr found) \<and>
           elems found =
             filter (\<lambda>n. contains_ci (Title n) q \<or> contains_ci (Content n) q) (table d)"
  using ilike_contains [OF assms(2)]
  by (simp add: SearchNotes_healthy [OF assms(1)] elems_scan_rows)

text \<open>
  C2. The query is pasted into the pattern as it is, so \<open>_\<close> and \<open>%\<close> in it are
  wildcards: on the two example notes the query \<open>_\<close> returns both, though neither
  the title nor the content of the first contains an underscore. For a query
  without \<open>%\<close>, \<open>_\<close> and backslash, \<open>search_plain_query\<close> above shows that the notes
  returned are those that contain it, case-insensitively.
\<close>

theorem wildcard_query_is_a_pattern:
  "SearchNotes healthy two_notes ''_'' = (sent two_notes, Inr (Some (table two_notes))) \<and>
   \<lparr>ID = 1, Title = ''abc'', Content = ''def''\<rparr> \<in> set (table two_notes) \<and>
   \<not> contains_ci ''abc'' ''_'' \<and> \<not> contains_ci ''def'' ''_''"
proof -
  have "ilike ''abc'' ''%_%''" "ilike ''50%'' ''%_%''"
    by (simp_all add: ilike_def lower_def)
  then have "SearchNotes healthy two_notes ''_'' = (sent two_notes, Inr (Some (table two_notes)))"
    using SearchNotes_healthy [of "''_''" two_notes]
    by (simp add: two_notes_def)
  moreover have "\<not> contains_ci ''abc'' ''_''" "\<not> contains_ci ''def'' ''_''"
    by (simp_all add: contains_ci_def lower_def sublist_Cons_right)
  ultimately show ?thesis
    by (simp add: two_notes_def)
qed

lemma search_handler_alone:
  "(index (Query r) ''q'' = [] \<longrightarrow>
      makeSearchNotesHandler drv d r = (d, http_Error missing_q StatusBadRequest)) \<and>
   (index (Query r) ''q'' = q \<and> q \<noteq> [] \<and>
    ns = filter (\<lambda>n. ilike (Title n) (''%'' @ q @ ''%'') \<or> ilike (Content n) (''%'' @ q @ ''%''))
           (table d) \<longrightarrow>
      makeSearchNotesHandler healthy d r =
        (sent d, \<lparr>Status = StatusOK, ContentType = Some ''application/json'',
                   Payload = Json (JObject [(''search_result'',
                     if ns = [] then JNull else JArray (map encode_Note ns))])\<rparr>))"
  by (auto simp: makeSearchNotesHandler_def SearchNotes_healthy scan_rows_None
                 convert_notes_None Let_def)

text \<open>
  C4. The route \<^verbatim>\<open>/api/v1/notes/{id}\<close> for GET is registered before
  \<^verbatim>\<open>/api/v1/notes/search\<close> and matches its path with \<open>id = search\<close>: every GET of
  \<^verbatim>\<open>/api/v1/notes/search\<close>, whatever its query, is served by the handler for one
  note and answered 400 \<open>Invalid ID\<close>. The search handler by itself behaves as
  \<open>search_handler_alone\<close> says.
\<close>

theorem search_route_shadowed:
  "ServeHTTP drv d \<lparr>Method = ''GET'', Path = ''/api/v1/notes/search'', Vars = vs,
                     Query = q, Body = b\<rparr>
   = Some (d, http_Error ''Invalid ID'' StatusBadRequest)"
proof -
  have "Atoi ''search'' = None"
    by (simp add: Atoi_def is_digit_def)
  moreover have "is_clean ''/api/v1/notes/search''"
    by (simp add: is_clean_def)
  ultimately show ?thesis
    by (simp add: ServeHTTP_def routes_def is_variable_simps makeGetNoteHandler_def)
qed

lemma match_literal:
  assumes "match_segments (t # ts) ps = Some vars" "\<not> is_variable t"
  shows "\<exists>ps'. ps = t # ps' \<and> match_segments ts ps' = Some vars"
  using assms by (cases ps) (auto split: if_splits)

lemma match_end: "match_segments [] ps = Some vars \<Longrightarrow> ps = []"
  by (cases ps) auto

lemma match_search:
  assumes "match_segments (segments ''/api/v1/notes/search'') ps = Some vars"
  shows "match_segments (segments ''/api/v1/notes/{id}'') ps = Some [(''id'', ''search'')]"
proof -
  from assms have "match_segments [[], ''api'', ''v1'', ''notes'', ''search''] ps = Some vars"
    by simp
  then have "ps = [[], ''api'', ''v1'', ''notes'', ''search'']"
    by (auto dest!: match_literal match_end simp: is_variable_simps)
  then show ?thesis
    by (simp add: is_variable_simps)
qed

lemma search_handler_unreachable: "first_match routes r \<noteq> Some (SearchNotesHandler, vars)"
proof
  assume a: "first_match routes r = Some (SearchNotesHandler, vars)"
  show False
  proof (cases "match_segments (segments ''/api/v1/notes/search'') (segments (Path r))")
    case None
    with a show False
      by (simp add: routes_def split: option.splits if_splits)
  next
    case (Some vs)
    from match_search [OF Some] a Some show False
      by (simp add: routes_def split: option.splits if_splits)
  qed
qed

text \<open>
  C9. When the statement selects no row, \<open>SearchNotes\<close> on a healthy connection
  returns no error and the nil slice, and the search handler answers 200 with
  \<open>search_result\<close> encoded as \<open>null\<close>.
\<close>

theorem no_match_encodes_null:
  assumes "index (Query r) ''q'' = q" "q \<noteq> []"
    and "list_all (\<lambda>n. \<not> ilike (Title n) (''%'' @ q @ ''%'') \<and>
                       \<not> ilike (Content n) (''%'' @ q @ ''%'')) (table d)"
  shows "SearchNotes healthy d q = (sent d, Inr None) \<and>
         makeSearchNotesHandler healthy d r =
           (sent d, \<lparr>Status = StatusOK, ContentType = Some ''application/json'',
                      Payload = Json (JObject [(''search_result'', JNull)])\<rparr>)"
proof -
  have "filter (\<lambda>n. ilike (Title n) (''%'' @ q @ ''%'') \<or> ilike (Content n) (''%'' @ q @ ''%''))
          (table d) = []"
    using assms(3) by (auto simp: filter_empty_conv list_all_iff)
  then have s: "SearchNotes healthy d q = (sent d, Inr None)"
    by (simp add: SearchNotes_healthy [OF assms(2)])
  with assms(1,2) show ?thesis
    by (simp add: makeSearchNotesHandler_def)
qed

theorem no_match_encodes_null_witness:
  "SearchNotes healthy two_notes ''zz'' = (sent two_notes, Inr None) \<and>
   makeSearchNotesHandler healthy two_notes
       (req ''GET'' ''/api/v1/notes/search'' [(''q'', ''zz'')] Undecodable) =
     (sent two_notes, \<lparr>Status = StatusOK, ContentType = Some ''application/json'',
                        Payload = Json (JObject [(''search_result'', JNull)])\<rparr>)"
proof -
  have "\<not> ilike ''abc'' ''%zz%''" "\<not> ilike ''def'' ''%zz%''" "\<not> ilike ''50%'' ''%zz%''"
    "\<not> ilike ''a_b'' ''%zz%''"
    by (simp_all add: ilike_def lower_def backslash_def)
  then show ?thesis
    using no_match_encodes_null [of "req ''GET'' ''/api/v1/notes/search'' [(''q'', ''zz'')] Undecodable"
        "''zz''" two_notes]
    by (simp add: req_def two_notes_def)
qed

section \<open>Invariants of the served states\<close>

lemma GetNote_state: "fst (GetNote drv d i) = sent d"
  by (simp add: GetNote_def Let_def split: option.splits sum.splits)

lemma SearchNotes_state: "fst (SearchNotes drv d q) = sent d"
  by (simp add: SearchNotes_def Let_def split: option.splits sum.splits)

lemma CreateNote_state:
  "fst (CreateNote drv d title content) = sent d \<or>
   fst (CreateNote drv d title content) = fst (insert_returning_id (sent d) title content)"
  by (simp add: CreateNote_def QueryRow_Scan_def insert_returning_id_def Let_def
           split: option.splits)

lemma UpdateNote_state:
  "fst (UpdateNote drv d i title content) = sent d \<or>
   fst (UpdateNote drv d i title content) = fst (update_by_id (sent d) title content i)"
  by (simp add: UpdateNote_def update_by_id_def split: option.splits)

lemma DeleteNote_state:
  "fst (DeleteNote drv d i) = sent d \<or>
   fst (DeleteNote drv d i) = fst (delete_by_id (sent d) i)"
  by (simp add: DeleteNote_def delete_by_id_def split: option.splits)

text \<open>The state after a handler is the state before it, or the state after the one
  call of the accessor it makes, with arguments that passed the validation.\<close>

lemma get_handler_state:
  "fst (makeGetNoteHandler drv d r) = d \<or> fst (makeGetNoteHandler drv d r) = sent d"
  by (auto simp: makeGetNoteHandler_def split_beta GetNote_state split: option.splits sum.splits)

lemma search_handler_state:
  "fst (makeSearchNotesHandler drv d r) = d \<or> fst (makeSearchNotesHandler drv d r) = sent d"
  by (auto simp: makeSearchNotesHandler_def Let_def split_beta SearchNotes_state
           split: sum.splits)

lemma create_handler_state:
  "fst (makeCreateNoteHandler drv d r) = d \<or>
   (\<exists>title content. title \<noteq> [] \<and> content \<noteq> [] \<and>
      fst (makeCreateNoteHandler drv d r) = fst (CreateNote drv d title content))"
  by (auto simp: makeCreateNoteHandler_def split_beta split: option.splits sum.splits)

lemma update_handler_state:
  "fst (makeUpdateNoteHandler drv d r) = d \<or>
   (\<exists>i title content. title \<noteq> [] \<and> content \<noteq> [] \<and>
      fst (makeUpdateNoteHandler drv d r) = fst (UpdateNote drv d i title content))"
  by (auto simp: makeUpdateNoteHandler_def split_beta split: option.splits)

lemma delete_handler_state:
  "fst (makeDeleteNoteHandler drv d r) = d \<or>
   (\<exists>i. fst (makeDeleteNoteHandler drv d r) = fst (DeleteNote drv d i))"
  by (auto simp: makeDeleteNoteHandler_def split_beta split: option.splits)

lemma stable_serve:
  assumes "stable P" "P d"
  shows "P (fst (serve h drv d r))"
proof -
  from assms have s: "P (sent d)"
    and del: "\<And>i. P (fst (delete_by_id (sent d) i))"
    and ins: "\<And>title content. title \<noteq> [] \<Longrightarrow> content \<noteq> [] \<Longrightarrow>
                P (fst (insert_returning_id (sent d) title content))"
    and upd: "\<And>title content i. title \<noteq> [] \<Longrightarrow> content \<noteq> [] \<Longrightarrow>
                P (fst (update_by_id (sent d) title content i))"
    by (simp_all add: stable_def)
  show ?thesis
  proof (cases h)
    case GetNoteHandler
    with assms(2) s get_handler_state [of drv d r] show ?thesis by auto
  next
    case CreateNoteHandler
    from create_handler_state [of drv d r] show ?thesis
    proof
      assume "fst (makeCreateNoteHandler drv d r) = d"
      with CreateNoteHandler assms(2) show ?thesis by simp
    next
      assume "\<exists>title content. title \<noteq> [] \<and> content \<noteq> [] \<and>
        fst (makeCreateNoteHandler drv d r) = fst (CreateNote drv d title content)"
      then obtain title content where tc: "title \<noteq> []" "content \<noteq> []"
        and eq: "fst (makeCreateNoteHandler drv d r) = fst (CreateNote drv d title content)"
        by blast
      from CreateNote_state [of drv d title content] s ins [OF tc]
      have "P (fst (CreateNote drv d title content))" by auto
      with CreateNoteHandler eq show ?thesis by simp
    qed
  next
    case UpdateNoteHandler
    from update_handler_state [of drv d r] show ?thesis
    proof
      assume "fst (makeUpdateNoteHandler drv d r) = d"
      with UpdateNoteHandler assms(2) show ?thesis by simp
    next
      assume "\<exists>i title content. title \<noteq> [] \<and> content \<noteq> [] \<and>
        fst (makeUpdateNoteHandler drv d r) = fst (UpdateNote drv d i title content)"
      then obtain i title content where tc: "title \<noteq> []" "content \<noteq> []"
        and eq: "fst (makeUpdateNoteHandler drv d r) = fst (UpdateNote drv d i title content)"
        by blast
      from UpdateNote_state [of drv d i title content] s upd [OF tc, of i]
      have "P (fst (UpdateNote drv d i title content))" by auto
      with UpdateNoteHandler eq show ?thesis by simp
    qed
  next
    case DeleteNoteHandler
    from delete_handler_state [of drv d r] show ?thesis
    proof
      assume "fst (makeDeleteNoteHandler drv d r) = d"
      with DeleteNoteHandler assms(2) show ?thesis by simp
    next
      assume "\<exists>i. fst (makeDeleteNoteHandler drv d r) = fst (DeleteNote drv d i)"
      then obtain i where eq: "fst (makeDeleteNoteHandler drv d r) = fst (DeleteNote drv d i)"
        by blast
      from DeleteNote_state [of drv d i] s del [of i]
      have "P (fst (DeleteNote drv d i))" by auto
      with DeleteNoteHandler eq show ?thesis by simp
    qed
  next
    case SearchNotesHandler
    with assms(2) s search_handler_state [of drv d r] show ?thesis by auto
  qed
qed

lemma stable_serve_all: "stable P \<Longrightarrow> P d \<Longrightarrow> P (serve_all d reqs)"
proof (induction reqs arbitrary: d)
  case Nil
  then show ?case by simp
next
  case (Cons a reqs)
  obtain drv r where a: "a = (drv, r)"
    by (cases a)
  show ?case
  proof (cases "ServeHTTP drv d r")
    case None
    with a Cons show ?thesis by simp
  next
    case (Some res)
    then obtain h vars where "res = serve h drv d (r\<lparr>Vars := vars\<rparr>)"
      by (auto simp: ServeHTTP_def split: option.splits if_splits)
    with Cons.prems have "P (fst res)"
      by (simp add: stable_serve)
    with a Some Cons.IH [of "fst res"] Cons.prems(1) show ?thesis
      by (cases res) simp
  qed
qed

lemma stable_nonempty: "stable nonempty_notes"
  by (auto simp: stable_def nonempty_notes_def sent_def insert_returning_id_def
                 update_by_id_def delete_by_id_def Let_def list_all_iff)

lemma ID_update_comp:
  "ID \<circ> (\<lambda>n. if ID n = i then n\<lparr>Title := title, Content := content\<rparr> else n) = ID"
  by (rule ext) simp

lemma wf_insert: "wf d \<Longrightarrow> wf (fst (insert_returning_id d title content))"
  by (auto simp: wf_def insert_returning_id_def Let_def list_all_iff)

lemma wf_update: "wf d \<Longrightarrow> wf (fst (update_by_id d title content i))"
  by (auto simp: wf_def update_by_id_def list_all_iff ID_update_comp)

lemma wf_delete: "wf d \<Longrightarrow> wf (fst (delete_by_id d i))"
  by (auto simp: wf_def delete_by_id_def list_all_iff distinct_map_filter)

lemma wf_sent: "wf (sent d) = wf d"
  by (simp add: wf_def)

lemma stable_wf: "stable wf"
  by (simp add: stable_def wf_sent wf_insert wf_update wf_delete)

text \<open>Every state the server reaches from the empty store has its ids from the
  sequence.\<close>

lemma wf_reachable: "wf (serve_all empty_store reqs)"
  by (rule stable_serve_all [OF stable_wf]) (simp add: wf_def empty_store_def)

text \<open>
  C8. After any sequence of requests served from the empty store, whatever the
  driver does during each, every stored note has a non-empty title and a
  non-empty content. The accessor does not enforce this: \<open>CreateNote\<close> with empty
  strings succeeds and stores them, and so does \<open>UpdateNote\<close> on an existing id.
\<close>

theorem persisted_notes_nonempty:
  "nonempty_notes (serve_all empty_store reqs) \<and>
   snd (CreateNote healthy d [] []) = Inr (notes_id_seq d) \<and>
   \<not> nonempty_notes (fst (CreateNote healthy d [] [])) \<and>
   (i \<in> ID ` set (table d) \<longrightarrow>
      snd (UpdateNote healthy d i [] []) = None \<and>
      \<not> nonempty_notes (fst (UpdateNote healthy d i [] [])))"
proof (intro conjI impI)
  show "nonempty_notes (serve_all empty_store reqs)"
    by (rule stable_serve_all [OF stable_nonempty]) (simp add: nonempty_notes_def empty_store_def)
  show "snd (CreateNote healthy d [] []) = Inr (notes_id_seq d)"
    by (simp add: CreateNote_healthy)
  show "\<not> nonempty_notes (fst (CreateNote healthy d [] []))"
    by (simp add: CreateNote_healthy nonempty_notes_def insert_returning_id_def Let_def)
next
  assume i: "i \<in> ID ` set (table d)"
  then have "filter (\<lambda>n. ID n = i) (table d) \<noteq> []"
    by (auto simp: filter_empty_conv)
  then show "snd (UpdateNote healthy d i [] []) = None"
    by (simp add: UpdateNote_def healthy_def update_by_id_def)
  from i obtain n where n: "n \<in> set (table d)" "ID n = i"
    by auto
  then have "n\<lparr>Title := [], Content := []\<rparr> \<in> set (table (fst (update_by_id (sent d) [] [] i)))"
    by (force simp: update_by_id_def)
  then have "\<not> nonempty_notes (fst (update_by_id (sent d) [] [] i))"
    unfolding nonempty_notes_def list_all_iff
    by (intro notI) (drule (1) bspec, simp)
  then show "\<not> nonempty_notes (fst (UpdateNote healthy d i [] []))"
    by (simp add: UpdateNote_def healthy_def split_beta)
qed

theorem persisted_notes_nonempty_witness:
  "nonempty_notes (serve_all empty_store
      [(healthy, req ''POST'' ''/api/v1/notes'' [] (Fields None (Some ''A'') (Some ''B''))),
       (healthy, req ''PUT'' ''/api/v1/notes/1'' [] (Fields None (Some []) (Some ''x'')))]) \<and>
   1 \<in> ID ` set (table two_notes) \<and>
   snd (UpdateNote healthy two_notes 1 [] []) = None \<and>
   \<not> nonempty_notes (fst (UpdateNote healthy two_notes 1 [] []))"
  using persisted_notes_nonempty [of
      "[(healthy, req ''POST'' ''/api/v1/notes'' [] (Fields None (Some ''A'') (Some ''B''))),
        (healthy, req ''PUT'' ''/api/v1/notes/1'' [] (Fields None (Some []) (Some ''x'')))]"
      two_notes 1]
  by (simp add: two_notes_def)

end
